theory Spec2Isabelle
  imports Main
begin

section \<open>Text\<close>

text \<open>
  Python's \<open>str\<close> is modelled by \<open>string\<close>: a list of bytes holding the text in UTF-8.
  The literals of the source outside ASCII (the pictographs that mark a response) are
  written out byte by byte. The character classes of Python that the source relies on
  (\<open>str.lower\<close>, \<open>str.strip\<close>, \<open>str.split\<close>) are modelled on the ASCII range, where one
  byte is one character; bytes from \<open>0x80\<close> on are neither white space nor letters here.
\<close>

definition isspace :: "char \<Rightarrow> bool" where
  \<comment> \<open>\<open>str.isspace\<close> on ASCII: TAB, LF, VT, FF, CR, the separators FS, GS, RS, US and the space.\<close>
  "isspace c = (let n = (of_char c :: nat) in (9 \<le> n \<and> n \<le> 13) \<or> (28 \<le> n \<and> n \<le> 32))"

definition lower_char :: "char \<Rightarrow> char" where
  "lower_char c = (let n = (of_char c :: nat) in if 65 \<le> n \<and> n \<le> 90 then char_of (n + 32) else c)"

definition lower :: "string \<Rightarrow> string" where
  \<comment> \<open>\<open>s.lower()\<close>\<close>
  "lower s = map lower_char s"

definition startswith :: "string \<Rightarrow> string \<Rightarrow> bool" where
  \<comment> \<open>\<open>s.startswith(p)\<close>\<close>
  "startswith s p = (take (length p) s = p)"

fun py_in :: "string \<Rightarrow> string \<Rightarrow> bool" where
  \<comment> \<open>\<open>p in s\<close>: \<open>p\<close> occurs in \<open>s\<close> as a contiguous piece.\<close>
  "py_in p [] = (p = [])"
| "py_in p (c # cs) = (startswith (c # cs) p \<or> py_in p cs)"

definition replace_char :: "char \<Rightarrow> string \<Rightarrow> string \<Rightarrow> string" where
  \<comment> \<open>\<open>s.replace(c, r)\<close> for a one-character \<open>c\<close>: every occurrence, left to right.\<close>
  "replace_char c r s = concat (map (\<lambda>x. if x = c then r else [x]) s)"

definition strip :: "string \<Rightarrow> string" where
  \<comment> \<open>\<open>s.strip()\<close>\<close>
  "strip s = rev (dropWhile isspace (rev (dropWhile isspace s)))"

fun split_from :: "string \<Rightarrow> string \<Rightarrow> string list" where
  \<comment> \<open>The words of the text still to be read, \<open>w\<close> being the word read so far.\<close>
  "split_from w [] = (if w = [] then [] else [w])"
| "split_from w (c # cs) =
     (if isspace c then (if w = [] then split_from [] cs else w # split_from [] cs)
      else split_from (w @ [c]) cs)"

definition split :: "string \<Rightarrow> string list" where
  \<comment> \<open>\<open>s.split()\<close>: the maximal runs of characters that are not white space.\<close>
  "split s = split_from [] s"


definition digit :: "nat \<Rightarrow> char" where
  "digit d = char_of (48 + d)"

fun str_nat :: "nat \<Rightarrow> string" where
  "str_nat n = (if n < 10 then [digit n] else str_nat (n div 10) @ [digit (n mod 10)])"

declare str_nat.simps [simp del]

definition str_int :: "int \<Rightarrow> string" where
  \<comment> \<open>\<open>str(i)\<close> of a Python \<open>int\<close>: decimal, unbounded.\<close>
  "str_int i = (if i < 0 then CHR ''-'' # str_nat (nat (- i)) else str_nat (nat i))"





section \<open>The tool host: server.py\<close>

subsection \<open>calculate\<close>

text \<open>
  \<open>eval\<close> belongs to the interpreter, not to the repository: it is a parameter of the
  model, a function from the text it is given to what it does with it. It either returns
  a value or raises an exception. A returned \<open>float\<close> is known by the three observations
  the source makes of it: \<open>result.is_integer()\<close>, \<open>int(result)\<close> and the text of
  \<open>format(result, '.10g')\<close>. Any other value is known by its \<open>str\<close>.
\<close>

record pyfloat =
  is_integer :: bool
  int_of :: int
  format_10g :: string

datatype pyvalue =
    PyInt int
  | PyFloat pyfloat
  | PyObject string  \<comment> \<open>neither \<open>int\<close> nor \<open>float\<close>; the argument is its \<open>str\<close>\<close>

datatype pyexception =
    ZeroDivisionError
  | ValueError string  \<comment> \<open>with \<open>str(e)\<close>\<close>
  | SyntaxError
  | OtherException string  \<comment> \<open>any other \<open>Exception\<close>, with \<open>str(e)\<close>\<close>

datatype evaluation = Returns pyvalue | Raises pyexception

type_synonym evaluator = "string \<Rightarrow> evaluation"

definition dangerous_patterns :: "string list" where
  "dangerous_patterns = [''import'', ''exec'', ''eval'', ''__'', ''open'', ''file'']"

definition clean :: "string \<Rightarrow> string" where
  \<comment> \<open>Lines 26 and 27: \<open>^\<close> becomes \<open>**\<close>, then every space is removed.\<close>
  "clean expression = replace_char CHR '' '' [] (replace_char CHR ''^'' ''**'' expression)"

definition not_allowed :: "string \<Rightarrow> string" where
  "not_allowed pattern = ''Error: '' @ [CHR 0x27] @ pattern @ [CHR 0x27] @ '' not allowed in expressions''"

definition guard :: "string \<Rightarrow> string + string" where
  \<comment> \<open>Lines 26 to 36, all that runs before \<open>eval\<close>: \<open>Inl\<close> is the text of an early
      \<open>return\<close>, \<open>Inr\<close> the expression that goes on to \<open>eval\<close>.\<close>
  "guard expression0 =
     (let expression = clean expression0 in
      if expression = [] then Inl ''Error: Empty expression''
      else case find (\<lambda>pattern. py_in pattern (lower expression)) dangerous_patterns of
             Some pattern \<Rightarrow> Inl (not_allowed pattern)
           | None \<Rightarrow> Inr expression)"

definition format_result :: "pyvalue \<Rightarrow> string" where
  \<comment> \<open>Lines 54 to 60, the text after \<open>=\<close>.\<close>
  "format_result result =
     (case result of
        PyFloat f \<Rightarrow> if is_integer f then str_int (int_of f) else format_10g f
      | PyInt i \<Rightarrow> str_int i
      | PyObject s \<Rightarrow> s)"

definition calculate_try :: "evaluator \<Rightarrow> string \<Rightarrow> pyexception + string" where
  \<comment> \<open>The body of the \<open>try\<close>: \<open>Inl\<close> is an exception raised in it.\<close>
  "calculate_try ev expression0 =
     (case guard expression0 of
        Inl message \<Rightarrow> Inr message
      | Inr expression \<Rightarrow>
          (case ev expression of
             Raises x \<Rightarrow> Inl x
           | Returns result \<Rightarrow> Inr (expression @ '' = '' @ format_result result)))"

definition calculate :: "evaluator \<Rightarrow> string \<Rightarrow> pyexception + string" where
  \<comment> \<open>The \<open>try\<close> with its handlers, in their order: \<open>Inr\<close> is the text returned,
      \<open>Inl\<close> an exception that leaves the function.\<close>
  "calculate ev expression =
     (case calculate_try ev expression of
        Inr text \<Rightarrow> Inr text
      | Inl ZeroDivisionError \<Rightarrow> Inr ''Error: Division by zero''
      | Inl (ValueError e) \<Rightarrow> Inr (''Error: Invalid value - '' @ e)
      | Inl SyntaxError \<Rightarrow> Inr ''Error: Invalid mathematical expression''
      | Inl (OtherException e) \<Rightarrow> Inr (''Error: '' @ e))"

text \<open>
  What CPython's \<open>eval\<close> yields on the texts that the examples below pass to it
  (\<open>0x09\<close> is the TAB). Only these entries are used; the value outside the table
  stands for nothing.
\<close>

definition eval_table :: "(string \<times> evaluation) list" where
  "eval_table =
    [(''2+2*3'', Returns (PyInt 8)),
     (''2**3'', Returns (PyInt 8)),
     (''2+2'', Returns (PyInt 4)),
     (''2'' @ [CHR 0x09] @ ''**3'', Returns (PyInt 8)),
     (''8/2'', Returns (PyFloat \<lparr>is_integer = True, int_of = 4, format_10g = ''4''\<rparr>)),
     (''7/2'', Returns (PyFloat \<lparr>is_integer = False, int_of = 3, format_10g = ''3.5''\<rparr>)),
     (''1/0'', Raises ZeroDivisionError),
     (''im'' @ [CHR 0x09] @ ''port'', Raises SyntaxError)]"

definition eval_examples :: evaluator where
  "eval_examples s = (case map_of eval_table s of Some r \<Rightarrow> r | None \<Rightarrow> Raises SyntaxError)"

definition without_whitespace :: "string \<Rightarrow> string" where
  \<comment> \<open>Not in the source: a text with all its white space removed, for comparison with
      \<open>clean\<close>, which removes the spaces only.\<close>
  "without_whitespace s = filter (\<lambda>c. \<not> isspace c) s"

subsection \<open>summarize\_text\<close>



subsection \<open>The registry\<close>

text \<open>
  The four functions under \<open>@tool\<close>. The decorator names a tool after its function, and
  the clients call the tools by these names.
\<close>

datatype tool = Calculate | Chat_with_gemma3 | Web_search | Summarize_text

fun name_of :: "tool \<Rightarrow> string" where
  "name_of Calculate = ''calculate''"
| "name_of Chat_with_gemma3 = ''chat_with_gemma3''"
| "name_of Web_search = ''web_search''"
| "name_of Summarize_text = ''summarize_text''"

definition mcp_tools :: "tool list" where
  \<comment> \<open>Lines 170 to 173: \<open>FastMCP(name=..., tools=[...])\<close>\<close>
  "mcp_tools = [Calculate, Chat_with_gemma3, Web_search, Summarize_text]"

definition list_tools :: "string list" where
  \<comment> \<open>The names of the descriptors that \<open>list_tools\<close> returns.\<close>
  "list_tools = map name_of mcp_tools"


section \<open>The browser front end: advanced\_gradio.py\<close>

subsection \<open>The bridge and its synchronous wrapper\<close>

text \<open>
  The tool host, the transport and the clock are outside the repository. One call of a
  tool is described by what the session does (\<open>bridge\<close>), by whether the event loop
  around it fails (\<open>loop_error\<close>) and by how long the worker thread runs (\<open>seconds\<close>,
  \<open>None\<close> for a worker that never ends). A \<open>host\<close> gives this description for every
  tool name and argument dictionary.
\<close>

type_synonym arguments = "(string \<times> string) list"

datatype bridge_outcome =
    Responds "string list"  \<comment> \<open>\<open>session.call_tool\<close> returned; the texts of \<open>result.content\<close>\<close>
  | Fails string  \<comment> \<open>an \<open>Exception\<close> in open, initialize, invoke or close, with \<open>str(e)\<close>\<close>
  | Aborts  \<comment> \<open>a \<open>BaseException\<close> that is no \<open>Exception\<close>, such as a cancellation\<close>

datatype 'a outcome = Returned 'a | Raised string | Aborted

record worker_run =
  loop_error :: "string option"
  bridge :: bridge_outcome
  seconds :: "nat option"

type_synonym host = "string \<Rightarrow> arguments \<Rightarrow> worker_run"

definition call_tool_async :: "bridge_outcome \<Rightarrow> string outcome" where
  \<comment> \<open>Lines 20 to 38\<close>
  "call_tool_async b =
     (case b of
        Responds content \<Rightarrow>
          (case content of
             [] \<Rightarrow> Returned ''No response received''
           | text # _ \<Rightarrow> if text \<noteq> [] then Returned text else Returned ''No response received'')
      | Fails e \<Rightarrow> Returned (''Error: '' @ e)
      | Aborts \<Rightarrow> Aborted)"

definition run_async :: "worker_run \<Rightarrow> string outcome" where
  \<comment> \<open>Lines 42 to 50\<close>
  "run_async w = (case loop_error w of Some e \<Rightarrow> Raised e | None \<Rightarrow> call_tool_async (bridge w))"

type_synonym result_queue = "(string \<times> string) list"

datatype queue_exception = Empty

definition put :: "result_queue \<Rightarrow> string \<times> string \<Rightarrow> result_queue" where
  "put q item = q @ [item]"

definition get_nowait :: "result_queue \<Rightarrow> queue_exception + (string \<times> string)" where
  "get_nowait q = (case q of [] \<Rightarrow> Inl Empty | item # _ \<Rightarrow> Inr item)"

definition thread_func :: "worker_run \<Rightarrow> result_queue \<Rightarrow> result_queue" where
  \<comment> \<open>Lines 54 to 59: the queue after the thread has ended. \<open>except Exception\<close> does not
      catch an abort: the thread then ends without a \<open>put\<close>.\<close>
  "thread_func w result_queue =
     (case run_async w of
        Returned result \<Rightarrow> put result_queue (''success'', result)
      | Raised e \<Rightarrow> put result_queue (''error'', e)
      | Aborted \<Rightarrow> result_queue)"

definition timeout :: nat where
  "timeout = 300"

definition is_alive :: "worker_run \<Rightarrow> bool" where
  \<comment> \<open>\<open>thread.is_alive()\<close> right after \<open>thread.join(timeout=300)\<close>: the worker has not ended
      within the time allowed.\<close>
  "is_alive w = (case seconds w of None \<Rightarrow> True | Some t \<Rightarrow> timeout < t)"

definition timeout_text :: string where
  \<comment> \<open>U+23F1 U+FE0F, then the words\<close>
  "timeout_text = [CHR 0xE2, CHR 0x8F, CHR 0xB1, CHR 0xEF, CHR 0xB8, CHR 0x8F] @ '' Timeout: Request took too long''"

definition cross_mark :: string where
  \<comment> \<open>U+274C\<close>
  "cross_mark = [CHR 0xE2, CHR 0x9D, CHR 0x8C]"

definition no_response_text :: string where
  "no_response_text = cross_mark @ '' No response received''"

definition call_tool_sync :: "host \<Rightarrow> string \<Rightarrow> arguments \<Rightarrow> string" where
  \<comment> \<open>Lines 52 to 72. The queue is read only when the thread has ended, so it holds then
      what \<open>thread_func\<close> has put.\<close>
  "call_tool_sync h tool_name arguments =
     (let w = h tool_name arguments in
      if is_alive w then timeout_text
      else case get_nowait (thread_func w []) of
             Inr (status, result) \<Rightarrow> if status = ''success'' then result else cross_mark @ '' '' @ result
           | Inl Empty \<Rightarrow> no_response_text)"

text \<open>Hosts for the examples: one whose every call ends after \<open>t\<close> seconds in the same way,
  and one whose calls never end.\<close>

definition answers :: "nat \<Rightarrow> bridge_outcome \<Rightarrow> host" where
  "answers t b = (\<lambda>tool_name arguments. \<lparr>loop_error = None, bridge = b, seconds = Some t\<rparr>)"

definition hangs :: host where
  "hangs = (\<lambda>tool_name arguments. \<lparr>loop_error = None, bridge = Aborts, seconds = None\<rparr>)"

subsection \<open>The handlers of the tabs\<close>

text \<open>
  The handlers \<open>calculate\<close>, \<open>web_search\<close> and \<open>summarize\<close> of this file carry the
  prefix \<open>ui_\<close> here, the first two sharing their names with tools of server.py. A chat
  history is a list of pairs of a message and a response; \<open>history.append\<close> is the list
  with the pair at its end.
\<close>

type_synonym history = "(string \<times> string) list"

definition chat_response :: "host \<Rightarrow> string \<Rightarrow> history \<Rightarrow> history \<times> string" where
  "chat_response h message history =
     (if strip message = [] then (history, [])
      else let result = call_tool_sync h ''chat_with_gemma3'' [(''message'', message)]
           in (history @ [(message, result)], []))"




definition abacus :: string where
  \<comment> \<open>U+1F9EE\<close>
  "abacus = [CHR 0xF0, CHR 0x9F, CHR 0xA7, CHR 0xAE]"

definition magnifier :: string where
  \<comment> \<open>U+1F50D\<close>
  "magnifier = [CHR 0xF0, CHR 0x9F, CHR 0x94, CHR 0x8D]"

definition memo :: string where
  \<comment> \<open>U+1F4DD\<close>
  "memo = [CHR 0xF0, CHR 0x9F, CHR 0x93, CHR 0x9D]"

definition robot :: string where
  \<comment> \<open>U+1F916\<close>
  "robot = [CHR 0xF0, CHR 0x9F, CHR 0xA4, CHR 0x96]"



section \<open>The console client: client.py\<close>

text \<open>
  One turn of the chat loop, from the line that \<open>input\<close> returned to what the loop does
  with it: leave, go on without a call, print the tools or a hint, or call a tool (after
  printing a label) and print the text of its result.
\<close>

datatype turn =
    Goodbye
  | Blank
  | Print_tools
  | Hint string
  | Call_tool string string arguments  \<comment> \<open>label, tool name, arguments\<close>

definition chat_turn :: "string \<Rightarrow> turn" where
  \<comment> \<open>Lines 47 to 98\<close>
  "chat_turn line =
     (let user_input = strip line in
      if lower user_input \<in> set [''quit'', ''exit'', ''q''] then Goodbye
      else if user_input = [] then Blank
      else if lower user_input = ''tools'' then Print_tools
      else if startswith (lower user_input) ''calc:'' then
        (let expression = strip (drop 5 user_input) in
         if expression \<noteq> []
         then Call_tool (abacus @ '' Calculator: '') ''calculate'' [(''expression'', expression)]
         else Hint ''Please provide an expression. Example: calc: 2+2'')
      else if startswith (lower user_input) ''search:'' then
        (let query = strip (drop 7 user_input) in
         if query \<noteq> []
         then Call_tool (magnifier @ '' Searching: '') ''web_search'' [(''query'', query)]
         else Hint ''Please provide a search query. Example: search: python programming'')
      else if startswith (lower user_input) ''summarize:'' then
        (let text = strip (drop 10 user_input) in
         if text \<noteq> []
         then Call_tool (memo @ '' Summarizing: '') ''summarize_text'' [(''text'', text)]
         else Hint ''Please provide text to summarize. Example: summarize: <your text here>'')
      else Call_tool (robot @ '' Gemma3: '') ''chat_with_gemma3'' [(''message'', user_input)])"


section \<open>Properties of the text operations\<close>

lemma py_in_Nil: "py_in [] s"
  by (cases s) (simp_all add: startswith_def)

lemma startswith_Cons: "startswith (c # cs) (x # q) \<longleftrightarrow> c = x \<and> startswith cs q"
  by (auto simp: startswith_def)

lemma startswith_iff: "startswith s p \<longleftrightarrow> (\<exists>b. s = p @ b)"
  unfolding startswith_def by (metis append_eq_conv_conj)

lemma py_in_iff: "py_in p s \<longleftrightarrow> (\<exists>a b. s = a @ p @ b)"
proof (induction s)
  case Nil
  then show ?case by auto
next
  case (Cons c cs)
  have "(\<exists>a b. c # cs = a @ p @ b) \<longleftrightarrow> (\<exists>b. c # cs = p @ b) \<or> (\<exists>a b. cs = a @ p @ b)"
  proof
    assume "\<exists>a b. c # cs = a @ p @ b"
    then obtain a b where ab: "c # cs = a @ p @ b" by blast
    show "(\<exists>b. c # cs = p @ b) \<or> (\<exists>a b. cs = a @ p @ b)"
    proof (cases a)
      case Nil
      with ab show ?thesis by auto
    next
      case (Cons x a')
      with ab have "cs = a' @ p @ b" by simp
      then show ?thesis by blast
    qed
  next
    assume "(\<exists>b. c # cs = p @ b) \<or> (\<exists>a b. cs = a @ p @ b)"
    then show "\<exists>a b. c # cs = a @ p @ b"
    proof
      assume "\<exists>b. c # cs = p @ b"
      then obtain b where "c # cs = [] @ p @ b" by auto
      then show ?thesis by blast
    next
      assume "\<exists>a b. cs = a @ p @ b"
      then obtain a b where "c # cs = (c # a) @ p @ b" by auto
      then show ?thesis by blast
    qed
  qed
  with Cons.IH show ?case by (simp add: startswith_iff)
qed

lemma lower_char_caret: "lower_char c = CHR ''^'' \<longleftrightarrow> c = CHR ''^''"
proof
  assume h: "lower_char c = CHR ''^''"
  show "c = CHR ''^''"
  proof (cases "65 \<le> (of_char c :: nat) \<and> (of_char c :: nat) \<le> 90")
    case True
    then have "lower_char c = char_of ((of_char c :: nat) + 32)" by (simp add: lower_char_def)
    with h have "(of_char (char_of ((of_char c :: nat) + 32)) :: nat) = of_char (CHR ''^'')" by simp
    with True show ?thesis by simp
  next
    case False
    with h show ?thesis by (simp add: lower_char_def)
  qed
next
  assume "c = CHR ''^''"
  then show "lower_char c = CHR ''^''" by (simp add: lower_char_def)
qed

section \<open>Properties of calculate\<close>

lemma clean_charwise:
  "clean e = concat (map (\<lambda>c. if c = CHR ''^'' then ''**'' else if c = CHR '' '' then [] else [c]) e)"
  by (induction e) (auto simp: clean_def replace_char_def)


lemma clean_no_space: "CHR '' '' \<notin> set (clean e)"
  by (induction e) (auto simp: clean_charwise)

lemma clean_swap: "clean e = replace_char CHR ''^'' ''**'' (replace_char CHR '' '' [] e)"
  by (induction e) (auto simp: clean_charwise replace_char_def)

lemma clean_empty: "clean e = [] \<longleftrightarrow> replace_char CHR '' '' [] e = []"
  by (induction e) (auto simp: clean_charwise replace_char_def)

lemma caret_Nil: "replace_char CHR ''^'' ''**'' [] = []"
  by (simp add: replace_char_def)

lemma caret_Cons:
  "replace_char CHR ''^'' ''**'' (c # cs)
   = (if c = CHR ''^'' then ''**'' else [c]) @ replace_char CHR ''^'' ''**'' cs"
  by (simp add: replace_char_def)

lemma lower_caret: "lower (replace_char CHR ''^'' ''**'' s) = replace_char CHR ''^'' ''**'' (lower s)"
proof (induction s)
  case Nil
  then show ?case by (simp add: lower_def caret_Nil)
next
  case (Cons c cs)
  have "lower_char CHR ''*'' = CHR ''*''" by (simp add: lower_char_def)
  with Cons show ?case
    by (simp add: caret_Cons lower_def lower_char_caret)
qed

lemma startswith_caret:
  "CHR ''^'' \<notin> set q \<Longrightarrow> CHR ''*'' \<notin> set q
   \<Longrightarrow> startswith (replace_char CHR ''^'' ''**'' s) q = startswith s q"
proof (induction q arbitrary: s)
  case Nil
  then show ?case by (simp add: startswith_def)
next
  case (Cons x q)
  show ?case
  proof (cases s)
    case Nil
    then show ?thesis by (simp add: startswith_def caret_Nil)
  next
    case (Cons c cs)
    with Cons.prems Cons.IH [of cs] show ?thesis
      by (auto simp: caret_Cons startswith_Cons)
  qed
qed

lemma py_in_caret:
  "CHR ''^'' \<notin> set q \<Longrightarrow> CHR ''*'' \<notin> set q
   \<Longrightarrow> py_in q (replace_char CHR ''^'' ''**'' s) = py_in q s"
proof (induction s)
  case Nil
  then show ?case by (simp add: caret_Nil)
next
  case (Cons c cs)
  show ?case
  proof (cases q)
    case Nil
    then show ?thesis by (simp add: py_in_Nil)
  next
    case q: (Cons x q')
    with Cons.prems have x: "x \<noteq> CHR ''^''" "x \<noteq> CHR ''*''" by auto
    show ?thesis
    proof (cases "c = CHR ''^''")
      case True
      with x q Cons show ?thesis by (simp add: caret_Cons startswith_Cons)
    next
      case False
      have "startswith (replace_char CHR ''^'' ''**'' (c # cs)) q = startswith (c # cs) q"
        using Cons.prems by (rule startswith_caret)
      with False Cons show ?thesis by (simp add: caret_Cons)
    qed
  qed
qed

lemma pattern_plain:
  "p \<in> set dangerous_patterns \<Longrightarrow> CHR ''^'' \<notin> set p \<and> CHR ''*'' \<notin> set p \<and> p \<noteq> []"
  by (auto simp: dangerous_patterns_def)

lemma pattern_in_clean:
  assumes "p \<in> set dangerous_patterns"
  shows "py_in p (lower (clean e)) = py_in p (lower (replace_char CHR '' '' [] e))"
  using pattern_plain [OF assms] by (simp add: clean_swap lower_caret py_in_caret)

lemma find_patterns:
  "find (\<lambda>p. py_in p (lower (clean e))) dangerous_patterns
   = find (\<lambda>p. py_in p (lower (replace_char CHR '' '' [] e))) dangerous_patterns"
  by (rule find_cong) (simp_all add: pattern_in_clean)


lemma calculate_early: "guard e = Inl m \<Longrightarrow> calculate ev e = Inr m"
  by (simp add: calculate_def calculate_try_def)




text \<open>
  C3, amended. Take an expression that, once its space characters are removed, contains
  one of the six tokens in any letter case. Then \<open>calculate\<close> returns before \<open>eval\<close>: the
  guard ends in an early return, and whatever \<open>eval\<close> would do, the text returned is the
  error that names the first token of the list that occurs. Only the space character is
  removed: a TAB or a line break stays in the expression.
\<close>

theorem calculate_rejects_dangerous:
  assumes "p \<in> set dangerous_patterns"
    and "py_in p (lower (replace_char CHR '' '' [] e))"
  shows "\<exists>q. find (\<lambda>p. py_in p (lower (replace_char CHR '' '' [] e))) dangerous_patterns = Some q
           \<and> q \<in> set dangerous_patterns
           \<and> py_in q (lower (replace_char CHR '' '' [] e))
           \<and> guard e = Inl (not_allowed q)
           \<and> (\<forall>ev. calculate ev e = Inr (not_allowed q))"
proof -
  let ?P = "\<lambda>p. py_in p (lower (replace_char CHR '' '' [] e))"
  from assms have "find ?P dangerous_patterns \<noteq> None"
    by (auto simp: find_None_iff)
  then obtain q where q: "find ?P dangerous_patterns = Some q" by blast
  then have mem: "q \<in> set dangerous_patterns" and occ: "?P q"
    by (auto simp: find_Some_iff)
  from occ pattern_plain [OF mem] have "replace_char CHR '' '' [] e \<noteq> []"
    by (auto simp: lower_def)
  then have ne: "clean e \<noteq> []" by (simp add: clean_empty)
  from q ne have g: "guard e = Inl (not_allowed q)"
    by (simp add: guard_def find_patterns)
  then have "\<forall>ev. calculate ev e = Inr (not_allowed q)"
    by (simp add: calculate_early)
  with q mem occ g show ?thesis by blast
qed

text \<open>The theorem at \<open>O p e n('/etc/passwd')\<close>.\<close>

theorem calculate_rejects_dangerous_witness:
  "''open'' \<in> set dangerous_patterns
   \<and> py_in ''open'' (lower (replace_char CHR '' '' [] ''O p e n('/etc/passwd')''))
   \<and> guard ''O p e n('/etc/passwd')'' = Inl (not_allowed ''open'')
   \<and> calculate eval_examples ''O p e n('/etc/passwd')'' = Inr ''Error: 'open' not allowed in expressions''"
proof -
  have a: "''open'' \<in> set dangerous_patterns" by (simp add: dangerous_patterns_def)
  have b: "py_in ''open'' (lower (replace_char CHR '' '' [] ''O p e n('/etc/passwd')''))" by code_simp
  have c: "find (\<lambda>p. py_in p (lower (replace_char CHR '' '' [] ''O p e n('/etc/passwd')''))) dangerous_patterns
           = Some ''open''" by code_simp
  have d: "not_allowed ''open'' = ''Error: 'open' not allowed in expressions''" by code_simp
  from calculate_rejects_dangerous [OF a b] c d a b show ?thesis by auto
qed

text \<open>
  C3 as it is worded, with all white space removed: \<open>im<TAB>port\<close> without its white space
  contains \<open>import\<close>, yet the guard lets it through to \<open>eval\<close>, and the text returned
  names no token.
\<close>

theorem calculate_whitespace_counterexample:
  "py_in ''import'' (lower (without_whitespace (''im'' @ [CHR 0x09] @ ''port'')))
   \<and> guard (''im'' @ [CHR 0x09] @ ''port'') = Inr (''im'' @ [CHR 0x09] @ ''port'')
   \<and> calculate eval_examples (''im'' @ [CHR 0x09] @ ''port'') = Inr ''Error: Invalid mathematical expression''"
  by code_simp









section \<open>Properties of the registry\<close>

lemma chat_turn_names:
  "chat_turn line = Call_tool label n args \<Longrightarrow>
   n \<in> {''calculate'', ''web_search'', ''summarize_text'', ''chat_with_gemma3''}"
  unfolding chat_turn_def Let_def
  by (simp split: if_splits)

lemma list_tools_eq:
  "list_tools = [''calculate'', ''chat_with_gemma3'', ''web_search'', ''summarize_text'']"
  by (simp add: list_tools_def mcp_tools_def)

text \<open>
  C2, amended. The registry holds exactly four tools, and the names that \<open>list_tools\<close>
  gives are \<open>calculate\<close>, \<open>chat_with_gemma3\<close>, \<open>web_search\<close> and \<open>summarize_text\<close>, all
  different: the names of the four functions. They are the names by which the console
  client calls a tool.
\<close>

theorem registry_names:
  "length mcp_tools = 4
   \<and> list_tools = [''calculate'', ''chat_with_gemma3'', ''web_search'', ''summarize_text'']
   \<and> distinct list_tools
   \<and> (chat_turn line = Call_tool label n args \<longrightarrow> n \<in> set list_tools)"
proof (intro conjI impI)
  show "length mcp_tools = 4" by (simp add: mcp_tools_def)
  show "list_tools = [''calculate'', ''chat_with_gemma3'', ''web_search'', ''summarize_text'']"
    by (rule list_tools_eq)
  show "distinct list_tools" unfolding list_tools_eq by simp
  assume "chat_turn line = Call_tool label n args"
  from chat_turn_names [OF this]
  have "n \<in> {''calculate'', ''web_search'', ''summarize_text'', ''chat_with_gemma3''}" .
  also have "{''calculate'', ''web_search'', ''summarize_text'', ''chat_with_gemma3''} = set list_tools"
    unfolding list_tools_eq by (simp add: insert_commute)
  finally show "n \<in> set list_tools" .
qed

text \<open>The theorem at the line \<open>search: isabelle\<close>.\<close>

theorem registry_names_witness:
  "chat_turn ''search: isabelle'' = Call_tool (magnifier @ '' Searching: '') ''web_search'' [(''query'', ''isabelle'')]
   \<and> ''web_search'' \<in> set list_tools"
proof -
  have c: "chat_turn ''search: isabelle'' = Call_tool (magnifier @ '' Searching: '') ''web_search'' [(''query'', ''isabelle'')]"
    by code_simp
  from registry_names [of "''search: isabelle''" "magnifier @ '' Searching: ''" "''web_search''" "[(''query'', ''isabelle'')]"] c
  show ?thesis by blast
qed

text \<open>C2 as it is worded: no tool is named \<open>chat\<close>, \<open>search\<close> or \<open>summarize\<close>.\<close>

theorem registry_names_counterexample:
  "set list_tools \<noteq> {''calculate'', ''chat'', ''search'', ''summarize''}
   \<and> ''chat'' \<notin> set list_tools \<and> ''search'' \<notin> set list_tools \<and> ''summarize'' \<notin> set list_tools"
proof -
  have a: "''chat'' \<notin> set list_tools" unfolding list_tools_eq by simp
  have b: "''search'' \<notin> set list_tools" unfolding list_tools_eq by simp
  have c: "''summarize'' \<notin> set list_tools" unfolding list_tools_eq by simp
  from a have "set list_tools \<noteq> {''calculate'', ''chat'', ''search'', ''summarize''}" by blast
  with a b c show ?thesis by blast
qed


section \<open>Properties of the synchronous wrapper\<close>

lemma call_tool_sync_cases:
  "call_tool_sync h n a =
     (if is_alive (h n a) then timeout_text
      else case run_async (h n a) of
             Returned text \<Rightarrow> text
           | Raised e \<Rightarrow> cross_mark @ '' '' @ e
           | Aborted \<Rightarrow> no_response_text)"
  by (simp add: call_tool_sync_def Let_def thread_func_def put_def get_nowait_def
      split: outcome.splits)

lemma call_tool_async_never_raises: "call_tool_async b \<noteq> Raised e"
  by (simp add: call_tool_async_def split: bridge_outcome.splits list.splits)

text \<open>
  C4. When the worker ends before the time allowed, the event loop around the bridge
  does not fail and \<open>call_tool_async\<close> returns a text, \<open>call_tool_sync\<close> returns that
  very text.
\<close>

theorem call_tool_sync_transparent:
  assumes "h tool_name arguments = w"
    and "seconds w = Some t" and "t < timeout"
    and "loop_error w = None"
    and "call_tool_async (bridge w) = Returned text"
  shows "call_tool_sync h tool_name arguments = text"
  using assms by (simp add: call_tool_sync_cases is_alive_def run_async_def)

text \<open>The theorem at a host that answers \<open>2+2 = 4\<close> after two seconds.\<close>

theorem call_tool_sync_transparent_witness:
  "seconds (answers 2 (Responds [''2+2 = 4'']) ''calculate'' [(''expression'', ''2+2'')]) = Some 2
   \<and> 2 < timeout
   \<and> call_tool_async (Responds [''2+2 = 4'']) = Returned ''2+2 = 4''
   \<and> call_tool_sync (answers 2 (Responds [''2+2 = 4''])) ''calculate'' [(''expression'', ''2+2'')] = ''2+2 = 4''"
proof -
  let ?w = "\<lparr>loop_error = None, bridge = Responds [''2+2 = 4''], seconds = Some 2\<rparr>"
  have a: "answers 2 (Responds [''2+2 = 4'']) ''calculate'' [(''expression'', ''2+2'')] = ?w"
    by (simp add: answers_def)
  have b: "seconds ?w = Some 2" by simp
  have c: "(2::nat) < timeout" by (simp add: timeout_def)
  have d: "loop_error ?w = None" by simp
  have e: "call_tool_async (bridge ?w) = Returned ''2+2 = 4''" by (simp add: call_tool_async_def)
  from call_tool_sync_transparent
    [of "answers 2 (Responds [''2+2 = 4''])" "''calculate''" "[(''expression'', ''2+2'')]" ?w 2 "''2+2 = 4''"]
    a b c d e
  have "call_tool_sync (answers 2 (Responds [''2+2 = 4''])) ''calculate'' [(''expression'', ''2+2'')] = ''2+2 = 4''"
    by blast
  with a c e show ?thesis by simp
qed

text \<open>
  C5. When the worker never ends, or ends after more than the 300 seconds allowed,
  \<open>call_tool_sync\<close> returns the timeout text. When the worker has ended in time and the
  queue holds neither a success nor an error, it returns the no-response text; that is
  the case of a worker ended by an abort. Whatever the worker does, returning, raising,
  aborting or never ending, \<open>call_tool_sync\<close> returns a text, given by the equation of
  the fourth part.
\<close>

theorem call_tool_sync_timeout:
  "((seconds (h n a) = None \<or> (\<exists>t. seconds (h n a) = Some t \<and> timeout < t))
       \<longrightarrow> call_tool_sync h n a = timeout_text)
   \<and> (seconds (h n a) = Some t \<and> t \<le> timeout \<and> thread_func (h n a) [] = []
       \<longrightarrow> call_tool_sync h n a = no_response_text)
   \<and> (seconds (h n a) = Some t \<and> t \<le> timeout \<and> run_async (h n a) = Aborted
       \<longrightarrow> thread_func (h n a) [] = [])
   \<and> call_tool_sync h n a =
       (if is_alive (h n a) then timeout_text
        else case run_async (h n a) of
               Returned text \<Rightarrow> text
             | Raised e \<Rightarrow> cross_mark @ '' '' @ e
             | Aborted \<Rightarrow> no_response_text)
   \<and> timeout = 300
   \<and> timeout_text = [CHR 0xE2, CHR 0x8F, CHR 0xB1, CHR 0xEF, CHR 0xB8, CHR 0x8F] @ '' Timeout: Request took too long''
   \<and> no_response_text = [CHR 0xE2, CHR 0x9D, CHR 0x8C] @ '' No response received''"
proof (intro conjI impI)
  assume "seconds (h n a) = None \<or> (\<exists>t. seconds (h n a) = Some t \<and> timeout < t)"
  then have "is_alive (h n a)" by (auto simp: is_alive_def)
  then show "call_tool_sync h n a = timeout_text" by (simp add: call_tool_sync_cases)
next
  assume "seconds (h n a) = Some t \<and> t \<le> timeout \<and> thread_func (h n a) [] = []"
  then show "call_tool_sync h n a = no_response_text"
    by (simp add: call_tool_sync_def is_alive_def get_nowait_def)
next
  assume "seconds (h n a) = Some t \<and> t \<le> timeout \<and> run_async (h n a) = Aborted"
  then show "thread_func (h n a) [] = []" by (simp add: thread_func_def)
next
  show "call_tool_sync h n a =
       (if is_alive (h n a) then timeout_text
        else case run_async (h n a) of
               Returned text \<Rightarrow> text
             | Raised e \<Rightarrow> cross_mark @ '' '' @ e
             | Aborted \<Rightarrow> no_response_text)"
    by (rule call_tool_sync_cases)
qed (simp_all add: timeout_def timeout_text_def no_response_text_def cross_mark_def)

text \<open>The theorem at a host that never ends, one that ends after 301 seconds and one
  that aborts after a second.\<close>

theorem call_tool_sync_timeout_witness:
  "seconds (hangs ''web_search'' [(''query'', ''x'')]) = None
   \<and> call_tool_sync hangs ''web_search'' [(''query'', ''x'')] = timeout_text
   \<and> seconds (answers 301 (Responds [''late'']) ''web_search'' [(''query'', ''x'')]) = Some 301
   \<and> call_tool_sync (answers 301 (Responds [''late''])) ''web_search'' [(''query'', ''x'')] = timeout_text
   \<and> seconds (answers 1 Aborts ''web_search'' [(''query'', ''x'')]) = Some 1
   \<and> thread_func (answers 1 Aborts ''web_search'' [(''query'', ''x'')]) [] = []
   \<and> call_tool_sync (answers 1 Aborts) ''web_search'' [(''query'', ''x'')] = no_response_text"
proof -
  have a: "seconds (hangs ''web_search'' [(''query'', ''x'')]) = None" by (simp add: hangs_def)
  have b: "seconds (answers 301 (Responds [''late'']) ''web_search'' [(''query'', ''x'')]) = Some 301"
    by (simp add: answers_def)
  have b': "timeout < 301" by (simp add: timeout_def)
  have c: "seconds (answers 1 Aborts ''web_search'' [(''query'', ''x'')]) = Some 1"
    by (simp add: answers_def)
  have c': "(1::nat) \<le> timeout" by (simp add: timeout_def)
  have d: "run_async (answers 1 Aborts ''web_search'' [(''query'', ''x'')]) = Aborted"
    by (simp add: answers_def run_async_def call_tool_async_def)
  from call_tool_sync_timeout [of hangs "''web_search''" "[(''query'', ''x'')]" 0] a
  have 1: "call_tool_sync hangs ''web_search'' [(''query'', ''x'')] = timeout_text" by blast
  from call_tool_sync_timeout [of "answers 301 (Responds [''late''])" "''web_search''" "[(''query'', ''x'')]" 0] b b'
  have 2: "call_tool_sync (answers 301 (Responds [''late''])) ''web_search'' [(''query'', ''x'')] = timeout_text"
    by blast
  from call_tool_sync_timeout [of "answers 1 Aborts" "''web_search''" "[(''query'', ''x'')]" 1] c c' d
  have 3: "thread_func (answers 1 Aborts ''web_search'' [(''query'', ''x'')]) [] = []
     \<and> call_tool_sync (answers 1 Aborts) ''web_search'' [(''query'', ''x'')] = no_response_text"
    by blast
  from a b c 1 2 3 show ?thesis by blast
qed


section \<open>Properties of summarize\_text\<close>







section \<open>Properties of the command routing\<close>























end
